theory Spec2Isabelle
  imports Complex_Main "HOL-Library.Word"
begin

unbundle bit_operations_syntax

section \<open>Values of the host language\<close>

text \<open>
  The worker client of \<^verbatim>\<open>src/client/workerclient.ts\<close> is embedded as pure functions
  on an explicit client state. Every call of a collaborator that lives outside the file
  (logger, event handler, cache, shard socket, manager port) is recorded, in program
  order, in a list of effects returned next to the new state.
\<close>

text \<open>Opaque payload values: what travels in \<^verbatim>\<open>response\<close>, \<^verbatim>\<open>result\<close> and \<^verbatim>\<open>payload\<close> fields.\<close>

datatype jsvalue = JUndefined | JString string | JNumber int | JBool bool | JError string

text \<open>Truthiness, as \<^verbatim>\<open>if (data.error)\<close> tests it.\<close>

fun truthy :: "jsvalue \<Rightarrow> bool" where
  "truthy JUndefined = False"
| "truthy (JString s) = (s \<noteq> [])"
| "truthy (JNumber n) = (n \<noteq> 0)"
| "truthy (JBool b) = b"
| "truthy (JError m) = True"

text \<open>
  A number value as a shard reports it in \<^verbatim>\<open>latency\<close>: a finite value, an infinity or NaN.
  Numbers are only carried from the shard into replies; no arithmetic on them is modelled.
\<close>

datatype number = Fin rat | PosInf | NegInf | NaN

section \<open>Data model\<close>

text \<open>
  The connection object. Its class is a collaborator outside the file; the record holds the
  members the worker client reads (\<^verbatim>\<open>id\<close>, \<^verbatim>\<open>isOpen\<close>, \<^verbatim>\<open>latency\<close>, \<^verbatim>\<open>resumable\<close>,
  \<^verbatim>\<open>data.session_id\<close>) and the one it writes (\<^verbatim>\<open>options.presence\<close>).
\<close>

record Shard =
  shard_id :: int
  isOpen :: bool
  shard_latency :: number
  resumable :: bool
  session_id :: "string option"
  presence :: jsvalue

text \<open>The options object handed to \<^verbatim>\<open>new Shard(id, {...})\<close> by the spawn instruction.\<close>

record ShardOptions =
  opt_token :: string
  opt_intents :: int
  opt_info :: jsvalue
  opt_compress :: bool
  opt_debugger :: bool
  opt_properties :: jsvalue

record WorkerShardInfo =
  open_info :: bool
  shardId_info :: int
  latency_info :: number
  resumable_info :: bool

text \<open>The module-level \<^verbatim>\<open>workerData\<close>.\<close>

record WorkerData =
  wd_debug :: bool
  wd_intents :: int
  wd_shards :: "int list"
  wd_token :: string
  wd_workerId :: int

text \<open>An entry of the \<^verbatim>\<open>promises\<close> map: the promise to resolve and its timer handle.\<close>

record PendingCall =
  resolve :: nat
  timeout :: nat

text \<open>
  A timer registered with \<^verbatim>\<open>setTimeout\<close> by \<^verbatim>\<open>generateSendPromise\<close>: its delay in
  milliseconds and what its callback closes over (the nonce, the message and the promise's
  reject function).
\<close>

record Timer =
  delay_ms :: nat
  cb_nonce :: string
  cb_message :: string
  cb_reject :: nat

record ReadyData =
  guilds :: "string list"
  user_id :: string
  application_id :: string
  username :: string

text \<open>A gateway dispatch packet, by its \<^verbatim>\<open>t\<close>; guild packets carry \<^verbatim>\<open>d.id\<close>.\<close>

datatype packet =
    GUILD_MEMBER_UPDATE jsvalue
  | PRESENCE_UPDATE jsvalue
  | GUILD_DELETE string
  | GUILD_CREATE string
  | INTERACTION_CREATE jsvalue
  | MESSAGE_CREATE jsvalue
  | READY ReadyData
  | OTHER_DISPATCH string jsvalue

fun packet_t :: "packet \<Rightarrow> string" where
  "packet_t (GUILD_MEMBER_UPDATE d) = ''GUILD_MEMBER_UPDATE''"
| "packet_t (PRESENCE_UPDATE d) = ''PRESENCE_UPDATE''"
| "packet_t (GUILD_DELETE g) = ''GUILD_DELETE''"
| "packet_t (GUILD_CREATE g) = ''GUILD_CREATE''"
| "packet_t (INTERACTION_CREATE d) = ''INTERACTION_CREATE''"
| "packet_t (MESSAGE_CREATE d) = ''MESSAGE_CREATE''"
| "packet_t (READY d) = ''READY''"
| "packet_t (OTHER_DISPATCH t d) = t"

text \<open>Messages the manager sends to the worker (the cases of \<^verbatim>\<open>handleManagerMessages\<close>).\<close>

datatype ManagerMessages =
    CACHE_RESULT string jsvalue
  | SEND_PAYLOAD int string jsvalue
  | ALLOW_CONNECT int jsvalue
  | SPAWN_SHARDS jsvalue bool
  | SHARD_INFO int string
  | WORKER_INFO string
  | BOT_READY
  | API_RESPONSE string jsvalue jsvalue
  | EXECUTE_EVAL string string
  | EVAL_RESPONSE string jsvalue

text \<open>Messages the worker posts to the manager.\<close>

datatype WorkerMessage =
    W_WORKER_START int
  | W_RESULT_PAYLOAD string int
  | W_CONNECT_QUEUE int int
  | W_SHARD_INFO WorkerShardInfo string int
  | W_WORKER_INFO "WorkerShardInfo list" int string
  | W_EVAL string int int string
  | W_EVAL_RESPONSE jsvalue int string
  | W_WORKER_READY int
  | W_WORKER_SHARDS_CONNECTED int
  | W_RECEIVE_PAYLOAD int int packet

text \<open>Calls of collaborators, in the order the code makes them.\<close>

datatype effect =
    PostMessage WorkerMessage
  | LoggerFatal string
  | DebuggerDebug int
  | RunEvent string
  | ExecuteEvent string int
  | CollectorsRun string
  | CacheOnPacket packet
  | HandleInteraction int
  | HandleMessage int
  | HandlePayloadHook int
  | ShardSend int jsvalue
  | ShardConnect int
  | PromiseResolve nat jsvalue
  | PromiseReject nat jsvalue

text \<open>
  The client: the fields of \<^verbatim>\<open>WorkerClient\<close> the handlers read and write, the module-level
  \<^verbatim>\<open>workerData\<close>, the pending maps of the cache adapter and of the REST handler
  (absent when the adapter is not a \<^verbatim>\<open>WorkerAdapter\<close>, resp. when \<^verbatim>\<open>workerPromises\<close>
  is undefined), and the runtime's timer table and source of random UUIDs.
\<close>

record WorkerClient =
  handleGuilds :: "string set option"
  promises :: "string \<rightharpoonup> PendingCall"
  shards :: "(int \<times> Shard) list"
  workerData :: WorkerData
  events :: bool
  debugger :: bool
  botId :: string
  applicationId :: string
  me :: "(string \<times> string) option"
  opt_handlePayload :: bool
  opt_sendPayloadToParent :: bool
  opt_gateway_properties :: jsvalue
  adapter_promises :: "(string \<rightharpoonup> PendingCall) option"
  rest_workerPromises :: "(string \<rightharpoonup> nat) option"
  timers :: "nat \<rightharpoonup> Timer"
  next_handle :: nat
  randomUUID :: "string list"

text \<open>
  What the file imports and does not define: the constant \<^verbatim>\<open>GatewayIntentBits.Guilds\<close>,
  the constructor of \<^verbatim>\<open>Shard\<close>, the two de-duplicating filters, and the evaluation of a
  serialized callable against the client (\<open>Inl\<close>: it threw; \<open>Inr\<close>: it returned).
\<close>

record ext =
  Guilds :: int
  new_Shard :: "int \<Rightarrow> ShardOptions \<Rightarrow> Shard"
  memberUpdate_check :: "jsvalue \<Rightarrow> bool"
  presenceUpdate_check :: "jsvalue \<Rightarrow> bool"
  eval_func :: "string \<Rightarrow> WorkerClient \<Rightarrow> (jsvalue + jsvalue) \<times> WorkerClient"

section \<open>The shard registry, a Map in insertion order\<close>

fun Map_get :: "('k \<times> 'v) list \<Rightarrow> 'k \<Rightarrow> 'v option" where
  "Map_get [] k = None"
| "Map_get ((k', v) # m) k = (if k' = k then Some v else Map_get m k)"

text \<open>\<^verbatim>\<open>Map.set\<close>: an existing key keeps its position, a new key goes last.\<close>

fun Map_set :: "('k \<times> 'v) list \<Rightarrow> 'k \<Rightarrow> 'v \<Rightarrow> ('k \<times> 'v) list" where
  "Map_set [] k v = [(k, v)]"
| "Map_set ((k', v') # m) k v = (if k' = k then (k, v) # m else (k', v') # Map_set m k v)"

definition Map_values :: "('k \<times> 'v) list \<Rightarrow> 'v list" where
  "Map_values m = map snd m"

definition workerId :: "WorkerClient \<Rightarrow> int" where
  "workerId s = wd_workerId (workerData s)"

definition generateShardInfo :: "Shard \<Rightarrow> WorkerShardInfo" where
  "generateShardInfo shard =
     \<lparr>open_info = isOpen shard, shardId_info = shard_id shard,
      latency_info = shard_latency shard, resumable_info = resumable shard\<rparr>"

section \<open>Packet dispatch\<close>

text \<open>\<^verbatim>\<open>[...this.shards.values()].every(shard => shard.data.session_id)\<close>\<close>

definition every_session_id :: "WorkerClient \<Rightarrow> bool" where
  "every_session_id s =
     list_all (\<lambda>shard. case session_id shard of None \<Rightarrow> False | Some sid \<Rightarrow> sid \<noteq> [])
       (Map_values (shards s))"

text \<open>
  \<^verbatim>\<open>(workerData.intents & GatewayIntentBits.Guilds) === GatewayIntentBits.Guilds\<close>: the
  bitwise and is taken on 32-bit integers and read back signed.
\<close>

definition intents_Guilds :: "ext \<Rightarrow> WorkerClient \<Rightarrow> bool" where
  "intents_Guilds x s =
     (sint ((word_of_int (wd_intents (workerData s)) :: 32 word) AND word_of_int (Guilds x))
        = Guilds x)"

definition when_events :: "WorkerClient \<Rightarrow> effect \<Rightarrow> effect list" where
  "when_events s e = (if events s then [e] else [])"

definition announce_ready :: "WorkerClient \<Rightarrow> effect list" where
  "announce_ready s =
     PostMessage (W_WORKER_READY (workerId s)) # when_events s (RunEvent ''WORKER_READY'')"

text \<open>The cases \<^verbatim>\<open>GUILD_DELETE\<close> and \<^verbatim>\<open>GUILD_CREATE\<close> share one body.\<close>

definition onGuild :: "packet \<Rightarrow> string \<Rightarrow> int \<Rightarrow> WorkerClient \<Rightarrow> WorkerClient \<times> effect list" where
  "onGuild pk g shardId s =
     (case handleGuilds s of
        None \<Rightarrow> (s, when_events s (ExecuteEvent (packet_t pk) shardId))
      | Some G \<Rightarrow>
          if g \<in> G then
            (let G' = G - {g} in
             if G' = {} \<and> every_session_id s then
               (s\<lparr>handleGuilds := None\<rparr>, CacheOnPacket pk # announce_ready s)
             else if G' = {} then (s\<lparr>handleGuilds := None\<rparr>, [CacheOnPacket pk])
             else (s\<lparr>handleGuilds := Some G'\<rparr>, [CacheOnPacket pk]))
          else (s, when_events s (ExecuteEvent (packet_t pk) shardId)))"

definition onReady :: "ext \<Rightarrow> ReadyData \<Rightarrow> int \<Rightarrow> WorkerClient \<Rightarrow> WorkerClient \<times> effect list" where
  "onReady x d shardId s =
     (let G0 = (case handleGuilds s of None \<Rightarrow> {} | Some G \<Rightarrow> G);
          G = foldl (\<lambda>acc g. insert g acc) G0 (guilds d);
          s1 = s\<lparr>handleGuilds := Some G, botId := user_id d, applicationId := application_id d,
                 me := Some (user_id d, application_id d)\<rparr>;
          connected = (if every_session_id s1
                       then PostMessage (W_WORKER_SHARDS_CONNECTED (workerId s1))
                            # when_events s1 (RunEvent ''WORKER_SHARDS_CONNECTED'')
                       else []);
          dbg = (if debugger s1 then [DebuggerDebug shardId] else [])
      in if \<not> (G \<noteq> {} \<and> intents_Guilds x s1) then
           (s1\<lparr>handleGuilds := None\<rparr>,
            when_events s1 (ExecuteEvent ''READY'' shardId) @ connected
              @ (if every_session_id s1 then announce_ready s1 else []) @ dbg)
         else (s1, when_events s1 (ExecuteEvent ''READY'' shardId) @ connected @ dbg))"

text \<open>
  \<^verbatim>\<open>onPacket\<close>. The raw fan-out comes first and is not awaited; the rest follows the
  switch on \<^verbatim>\<open>packet.t\<close>.
\<close>

definition onPacket :: "ext \<Rightarrow> packet \<Rightarrow> int \<Rightarrow> WorkerClient \<Rightarrow> WorkerClient \<times> effect list" where
  "onPacket x pk shardId s =
     (let raw = when_events s (RunEvent ''RAW'') @ [CollectorsRun ''RAW''];
          (s', out) =
            (case pk of
               GUILD_MEMBER_UPDATE d \<Rightarrow>
                 if \<not> memberUpdate_check x d then (s, [])
                 else (s, when_events s (ExecuteEvent (packet_t pk) shardId))
             | PRESENCE_UPDATE d \<Rightarrow>
                 if \<not> presenceUpdate_check x d then (s, [])
                 else (s, when_events s (ExecuteEvent (packet_t pk) shardId))
             | GUILD_DELETE g \<Rightarrow> onGuild pk g shardId s
             | GUILD_CREATE g \<Rightarrow> onGuild pk g shardId s
             | INTERACTION_CREATE d \<Rightarrow>
                 (s, when_events s (ExecuteEvent (packet_t pk) shardId) @ [HandleInteraction shardId])
             | MESSAGE_CREATE d \<Rightarrow>
                 (s, when_events s (ExecuteEvent (packet_t pk) shardId) @ [HandleMessage shardId])
             | READY d \<Rightarrow> onReady x d shardId s
             | OTHER_DISPATCH t d \<Rightarrow> (s, when_events s (ExecuteEvent t shardId)))
      in (s', raw @ out))"

text \<open>
  The \<^verbatim>\<open>handlePayload\<close> callback that the spawn instruction wires into each shard: the
  configured hook, then \<^verbatim>\<open>onPacket\<close>, then the optional copy to the manager.
\<close>

definition handlePayload :: "ext \<Rightarrow> int \<Rightarrow> packet \<Rightarrow> WorkerClient \<Rightarrow> WorkerClient \<times> effect list" where
  "handlePayload x shardId payload s =
     (let hook = (if opt_handlePayload s then [HandlePayloadHook shardId] else []);
          (s', out) = onPacket x payload shardId s
      in (s', hook @ out @
               (if opt_sendPayloadToParent s
                then [PostMessage (W_RECEIVE_PAYLOAD (wd_workerId (workerData s')) shardId payload)]
                else [])))"

section \<open>The pending-call table\<close>

text \<open>
  \<^verbatim>\<open>generateNonce(large = true)\<close>. Each call of \<^verbatim>\<open>randomUUID()\<close> takes the next element
  of the runtime's supply; the supply running out stands for a generation that never
  returns. The short form is \<^verbatim>\<open>uuid.split('-')[0]\<close>.
\<close>

definition nonce_of :: "bool option \<Rightarrow> string \<Rightarrow> string" where
  "nonce_of large uuid =
     (if (case large of None \<Rightarrow> True | Some b \<Rightarrow> b) then uuid
      else takeWhile (\<lambda>c. c \<noteq> CHR ''-'') uuid)"

fun generateNonce ::
  "bool option \<Rightarrow> (string \<rightharpoonup> PendingCall) \<Rightarrow> string list \<Rightarrow> (string \<times> string list) option" where
  "generateNonce large pm [] = None"
| "generateNonce large pm (uuid # rest) =
     (let nonce = nonce_of large uuid
      in if pm nonce \<noteq> None then generateNonce large pm rest else Some (nonce, rest))"

text \<open>
  \<^verbatim>\<open>generateSendPromise(nonce, message = 'Timeout')\<close>: creates the promise, registers the
  timer with \<^verbatim>\<open>60e3\<close> milliseconds and stores the entry. Returns the promise's handle.
\<close>

definition generateSendPromise ::
  "string \<Rightarrow> string option \<Rightarrow> WorkerClient \<Rightarrow> nat \<times> WorkerClient" where
  "generateSendPromise nonce message s =
     (let msg = (case message of None \<Rightarrow> ''Timeout'' | Some m \<Rightarrow> m);
          p = next_handle s;
          t = Suc p
      in (p, s\<lparr>timers := (timers s)(t \<mapsto>
                   \<lparr>delay_ms = 60000, cb_nonce = nonce, cb_message = msg, cb_reject = p\<rparr>),
                promises := (promises s)(nonce \<mapsto> \<lparr>resolve = p, timeout = t\<rparr>),
                next_handle := Suc t\<rparr>))"

text \<open>
  The callback given to \<^verbatim>\<open>setTimeout\<close>, run by the runtime when timer \<open>t\<close> expires.
  A timer that was cleared is no longer in the table and does nothing.
\<close>

definition timeout_callback :: "nat \<Rightarrow> WorkerClient \<Rightarrow> WorkerClient \<times> effect list" where
  "timeout_callback t s =
     (case timers s t of
        None \<Rightarrow> (s, [])
      | Some tm \<Rightarrow>
          (s\<lparr>timers := (timers s)(t := None), promises := (promises s)(cb_nonce tm := None)\<rparr>,
           [PromiseReject (cb_reject tm) (JError (cb_message tm))]))"

definition clearTimeout :: "nat \<Rightarrow> WorkerClient \<Rightarrow> WorkerClient" where
  "clearTimeout t s = s\<lparr>timers := (timers s)(t := None)\<rparr>"

text \<open>\<^verbatim>\<open>tellWorker\<close>: \<open>None\<close> when the nonce generation does not return.\<close>

definition tellWorker ::
  "int \<Rightarrow> string \<Rightarrow> WorkerClient \<Rightarrow> (nat \<times> WorkerClient \<times> effect list) option" where
  "tellWorker toWorkerId func s =
     (case generateNonce None (promises s) (randomUUID s) of
        None \<Rightarrow> None
      | Some (nonce, rest) \<Rightarrow>
          (let s1 = s\<lparr>randomUUID := rest\<rparr>;
               (p, s2) = generateSendPromise nonce None s1
           in Some (p, s2, [PostMessage (W_EVAL func toWorkerId (wd_workerId (workerData s1)) nonce)])))"

section \<open>Instructions of the manager\<close>

text \<open>How a handler ends: it returns, or an exception leaves it.\<close>

datatype outcome = Completed | Threw jsvalue

text \<open>The options object built for \<^verbatim>\<open>new Shard(id, {...})\<close>.\<close>

definition spawn_options :: "jsvalue \<Rightarrow> bool \<Rightarrow> WorkerClient \<Rightarrow> ShardOptions" where
  "spawn_options info compress s =
     \<lparr>opt_token = wd_token (workerData s), opt_intents = wd_intents (workerData s),
      opt_info = info, opt_compress = compress, opt_debugger = debugger s,
      opt_properties = opt_gateway_properties s\<rparr>"

text \<open>The first half of the loop body: look the id up, create and store the shard if absent.\<close>

definition ensure_shard :: "ext \<Rightarrow> jsvalue \<Rightarrow> bool \<Rightarrow> int \<Rightarrow> WorkerClient \<Rightarrow> WorkerClient" where
  "ensure_shard x info compress i s =
     (case Map_get (shards s) i of
        None \<Rightarrow> s\<lparr>shards := Map_set (shards s) i (new_Shard x i (spawn_options info compress s))\<rparr>
      | Some shard \<Rightarrow> s)"

text \<open>The loop of the case \<^verbatim>\<open>SPAWN_SHARDS\<close> over \<^verbatim>\<open>workerData.shards\<close>.\<close>

fun spawn_shards ::
  "ext \<Rightarrow> jsvalue \<Rightarrow> bool \<Rightarrow> int list \<Rightarrow> WorkerClient \<Rightarrow> WorkerClient \<times> effect list" where
  "spawn_shards x info compress [] s = (s, [])"
| "spawn_shards x info compress (i # ids) s =
     (let s1 = ensure_shard x info compress i s;
          (s2, out) = spawn_shards x info compress ids s1
      in (s2, PostMessage (W_CONNECT_QUEUE i (wd_workerId (workerData s1))) # out))"

definition handleManagerMessages ::
  "ext \<Rightarrow> ManagerMessages \<Rightarrow> WorkerClient \<Rightarrow> outcome \<times> WorkerClient \<times> effect list" where
  "handleManagerMessages x data s =
     (case data of
        CACHE_RESULT nonce result \<Rightarrow>
          (case adapter_promises s of
             None \<Rightarrow> (Completed, s, [])
           | Some ap \<Rightarrow>
               (case ap nonce of
                  None \<Rightarrow> (Completed, s, [])
                | Some cacheData \<Rightarrow>
                    (Completed,
                     (clearTimeout (timeout cacheData) s)\<lparr>adapter_promises := Some (ap(nonce := None))\<rparr>,
                     [PromiseResolve (resolve cacheData) result])))
      | SEND_PAYLOAD shardId nonce payload \<Rightarrow>
          (case Map_get (shards s) shardId of
             None \<Rightarrow> (Completed, s, [LoggerFatal ''Worker trying send payload by non-existent shard''])
           | Some shard \<Rightarrow>
               (Completed, s,
                [ShardSend shardId payload, PostMessage (W_RESULT_PAYLOAD nonce (workerId s))]))
      | ALLOW_CONNECT shardId pres \<Rightarrow>
          (case Map_get (shards s) shardId of
             None \<Rightarrow> (Completed, s, [LoggerFatal ''Worker trying connect non-existent shard''])
           | Some shard \<Rightarrow>
               (Completed, s\<lparr>shards := Map_set (shards s) shardId (shard\<lparr>presence := pres\<rparr>)\<rparr>,
                [ShardConnect shardId]))
      | SPAWN_SHARDS info compress \<Rightarrow>
          (let (s', out) = spawn_shards x info compress (wd_shards (workerData s)) s
           in (Completed, s', out))
      | SHARD_INFO shardId nonce \<Rightarrow>
          (case Map_get (shards s) shardId of
             None \<Rightarrow> (Completed, s, [LoggerFatal ''Worker trying get non-existent shard''])
           | Some shard \<Rightarrow>
               (Completed, s, [PostMessage (W_SHARD_INFO (generateShardInfo shard) nonce (workerId s))]))
      | WORKER_INFO nonce \<Rightarrow>
          (Completed, s,
           [PostMessage (W_WORKER_INFO (map generateShardInfo (Map_values (shards s)))
                           (wd_workerId (workerData s)) nonce)])
      | BOT_READY \<Rightarrow> (Completed, s, when_events s (RunEvent ''BOT_READY''))
      | API_RESPONSE nonce err response \<Rightarrow>
          (case rest_workerPromises s of
             None \<Rightarrow> (Threw (JError ''TypeError''), s, [])
           | Some wp \<Rightarrow>
               (case wp nonce of
                  None \<Rightarrow> (Completed, s, [])
                | Some promise \<Rightarrow>
                    (Completed, s\<lparr>rest_workerPromises := Some (wp(nonce := None))\<rparr>,
                     [if truthy err then PromiseReject promise err
                      else PromiseResolve promise response])))
      | EXECUTE_EVAL func nonce \<Rightarrow>
          (let (r, s1) = eval_func x func s;
               result = (case r of Inl e \<Rightarrow> e | Inr v \<Rightarrow> v)
           in (Completed, s1,
               [PostMessage (W_EVAL_RESPONSE result (wd_workerId (workerData s1)) nonce)]))
      | EVAL_RESPONSE nonce response \<Rightarrow>
          (case promises s nonce of
             None \<Rightarrow> (Completed, s, [])
           | Some evalResponse \<Rightarrow>
               (Completed,
                clearTimeout (timeout evalResponse) (s\<lparr>promises := (promises s)(nonce := None)\<rparr>),
                [PromiseResolve (resolve evalResponse) response])))"

section \<open>The worker as a reactive system\<close>

text \<open>
  What can happen to a worker: a shard delivers a packet, the manager's port delivers a
  message, a timer expires, or a shard's own connection lifecycle changes the members the
  client reads from it.
\<close>

datatype event =
    Packet packet int
  | Instruction ManagerMessages
  | TimerFires nat
  | ShardLifecycle int bool number bool "string option"

definition shard_lifecycle ::
  "int \<Rightarrow> bool \<Rightarrow> number \<Rightarrow> bool \<Rightarrow> string option \<Rightarrow> WorkerClient \<Rightarrow> WorkerClient" where
  "shard_lifecycle i opn lat res sess s =
     (case Map_get (shards s) i of
        None \<Rightarrow> s
      | Some shard \<Rightarrow>
          s\<lparr>shards := Map_set (shards s) i
               (shard\<lparr>isOpen := opn, shard_latency := lat, resumable := res, session_id := sess\<rparr>)\<rparr>)"

text \<open>
  One event handled from its first statement to its last with nothing else running in
  between: every awaited call returns before any other handler gets a turn.
\<close>

fun step :: "ext \<Rightarrow> event \<Rightarrow> WorkerClient \<Rightarrow> outcome \<times> WorkerClient \<times> effect list" where
  "step x (Packet pk shardId) s = (case handlePayload x shardId pk s of (s', out) \<Rightarrow> (Completed, s', out))"
| "step x (Instruction data) s = handleManagerMessages x data s"
| "step x (TimerFires t) s = (case timeout_callback t s of (s', out) \<Rightarrow> (Completed, s', out))"
| "step x (ShardLifecycle i opn lat res sess) s = (Completed, shard_lifecycle i opn lat res sess s, [])"

section \<open>Handlers that suspend\<close>

text \<open>
  The handlers are \<^verbatim>\<open>async\<close> functions and nothing in the file makes one wait for
  another: the listener on the manager's port and the \<^verbatim>\<open>handlePayload\<close> closure of a shard
  only start them. A handler runs without interruption up to an \<^verbatim>\<open>await\<close>, and from there
  again when it is resumed; in between, other handlers may start or be resumed. A suspended
  handler is the \<^verbatim>\<open>await\<close> it stands at, with the locals it still needs.
\<close>

datatype cont =
    Await_payload_hook packet int
  | Await_cache_onPacket packet int
  | Await_interaction packet int
  | Await_message packet int
  | Await_ready_execute packet int
  | Await_shards_connected packet int
  | Await_worker_ready packet int
  | Await_onPacket packet int
  | Await_shard_send string
  | Await_eval jsvalue string
  | Await_last

text \<open>
  The end of the \<^verbatim>\<open>READY\<close> case: the debug line, after which \<^verbatim>\<open>onPacket\<close> returns to the
  closure that awaits it.
\<close>

definition ready_end :: "packet \<Rightarrow> int \<Rightarrow> WorkerClient \<Rightarrow> WorkerClient \<times> effect list \<times> cont option" where
  "ready_end pk shardId s =
     (s, (if debugger s then [DebuggerDebug shardId] else []), Some (Await_onPacket pk shardId))"

text \<open>
  The \<^verbatim>\<open>READY\<close> case from its second \<^verbatim>\<open>if\<close> on: the test of the set and of the intents
  on the client as it is now, the announcement with its awaited local event, and the deletion
  of the set, which comes after that \<^verbatim>\<open>await\<close> when readiness is announced.
\<close>

definition ready_test ::
  "ext \<Rightarrow> packet \<Rightarrow> int \<Rightarrow> WorkerClient \<Rightarrow> WorkerClient \<times> effect list \<times> cont option" where
  "ready_test x pk shardId s =
     (if \<not> ((case handleGuilds s of None \<Rightarrow> False | Some G \<Rightarrow> G \<noteq> {}) \<and> intents_Guilds x s) then
        (if every_session_id s then (s, announce_ready s, Some (Await_worker_ready pk shardId))
         else ready_end pk shardId (s\<lparr>handleGuilds := None\<rparr>))
      else ready_end pk shardId s)"

text \<open>
  \<^verbatim>\<open>onPacket\<close> from its first statement to its first \<^verbatim>\<open>await\<close>, or to its return when
  there is none on the path taken.
\<close>

definition onPacket_begin ::
  "ext \<Rightarrow> packet \<Rightarrow> int \<Rightarrow> WorkerClient \<Rightarrow> WorkerClient \<times> effect list \<times> cont option" where
  "onPacket_begin x pk shardId s =
     (let raw = when_events s (RunEvent ''RAW'') @ [CollectorsRun ''RAW''];
          guild = (\<lambda>g.
            case handleGuilds s of
              None \<Rightarrow> (s, raw @ when_events s (ExecuteEvent (packet_t pk) shardId),
                         Some (Await_onPacket pk shardId))
            | Some G \<Rightarrow>
                if g \<in> G then
                  (let G' = G - {g} in
                   if G' = {} \<and> every_session_id s then
                     (s\<lparr>handleGuilds := None\<rparr>, raw @ [CacheOnPacket pk],
                      Some (Await_cache_onPacket pk shardId))
                   else if G' = {} then
                     (s\<lparr>handleGuilds := None\<rparr>, raw @ [CacheOnPacket pk],
                      Some (Await_onPacket pk shardId))
                   else (s\<lparr>handleGuilds := Some G'\<rparr>, raw @ [CacheOnPacket pk],
                         Some (Await_onPacket pk shardId)))
                else (s, raw @ when_events s (ExecuteEvent (packet_t pk) shardId),
                      Some (Await_onPacket pk shardId)))
      in case pk of
           GUILD_DELETE g \<Rightarrow> guild g
         | GUILD_CREATE g \<Rightarrow> guild g
         | INTERACTION_CREATE d \<Rightarrow>
             (s, raw @ when_events s (ExecuteEvent (packet_t pk) shardId),
              Some (Await_interaction pk shardId))
         | MESSAGE_CREATE d \<Rightarrow>
             (s, raw @ when_events s (ExecuteEvent (packet_t pk) shardId),
              Some (Await_message pk shardId))
         | READY d \<Rightarrow>
             (let G0 = (case handleGuilds s of None \<Rightarrow> {} | Some G \<Rightarrow> G);
                  G = foldl (\<lambda>acc g. insert g acc) G0 (guilds d);
                  s1 = s\<lparr>handleGuilds := Some G, botId := user_id d,
                         applicationId := application_id d,
                         me := Some (user_id d, application_id d)\<rparr>
              in (s1, raw @ when_events s1 (ExecuteEvent ''READY'' shardId),
                  Some (Await_ready_execute pk shardId)))
         | GUILD_MEMBER_UPDATE d \<Rightarrow>
             (case onPacket x pk shardId s of (s', out) \<Rightarrow> (s', out, Some (Await_onPacket pk shardId)))
         | PRESENCE_UPDATE d \<Rightarrow>
             (case onPacket x pk shardId s of (s', out) \<Rightarrow> (s', out, Some (Await_onPacket pk shardId)))
         | OTHER_DISPATCH t d \<Rightarrow>
             (case onPacket x pk shardId s of (s', out) \<Rightarrow> (s', out, Some (Await_onPacket pk shardId))))"

text \<open>
  A suspended handler goes on, on the client as it is when it is resumed, up to its next
  \<^verbatim>\<open>await\<close> or to its end (\<open>None\<close>).
\<close>

fun resume :: "ext \<Rightarrow> cont \<Rightarrow> WorkerClient \<Rightarrow> WorkerClient \<times> effect list \<times> cont option" where
  "resume x (Await_payload_hook pk shardId) s = onPacket_begin x pk shardId s"
| "resume x (Await_cache_onPacket pk shardId) s =
     (s, announce_ready s, Some (Await_onPacket pk shardId))"
| "resume x (Await_interaction pk shardId) s =
     (s, [HandleInteraction shardId], Some (Await_onPacket pk shardId))"
| "resume x (Await_message pk shardId) s =
     (s, [HandleMessage shardId], Some (Await_onPacket pk shardId))"
| "resume x (Await_ready_execute pk shardId) s =
     (if every_session_id s then
        (s, PostMessage (W_WORKER_SHARDS_CONNECTED (workerId s))
              # when_events s (RunEvent ''WORKER_SHARDS_CONNECTED''),
         Some (Await_shards_connected pk shardId))
      else ready_test x pk shardId s)"
| "resume x (Await_shards_connected pk shardId) s = ready_test x pk shardId s"
| "resume x (Await_worker_ready pk shardId) s = ready_end pk shardId (s\<lparr>handleGuilds := None\<rparr>)"
| "resume x (Await_onPacket pk shardId) s =
     (s, (if opt_sendPayloadToParent s
          then [PostMessage (W_RECEIVE_PAYLOAD (wd_workerId (workerData s)) shardId pk)]
          else []), None)"
| "resume x (Await_shard_send nonce) s =
     (s, [PostMessage (W_RESULT_PAYLOAD nonce (workerId s))], None)"
| "resume x (Await_eval result nonce) s =
     (s, [PostMessage (W_EVAL_RESPONSE result (wd_workerId (workerData s)) nonce)], None)"
| "resume x Await_last s = (s, [], None)"

text \<open>
  \<^verbatim>\<open>handleManagerMessages\<close> from its first statement to its first \<^verbatim>\<open>await\<close>. The cases
  without one are handled whole.
\<close>

definition handleManagerMessages_begin ::
  "ext \<Rightarrow> ManagerMessages \<Rightarrow> WorkerClient \<Rightarrow> outcome \<times> WorkerClient \<times> effect list \<times> cont option" where
  "handleManagerMessages_begin x data s =
     (case data of
        SEND_PAYLOAD shardId nonce payload \<Rightarrow>
          (case Map_get (shards s) shardId of
             None \<Rightarrow> (Completed, s, [LoggerFatal ''Worker trying send payload by non-existent shard''], None)
           | Some shard \<Rightarrow> (Completed, s, [ShardSend shardId payload], Some (Await_shard_send nonce)))
      | ALLOW_CONNECT shardId pres \<Rightarrow>
          (case Map_get (shards s) shardId of
             None \<Rightarrow> (Completed, s, [LoggerFatal ''Worker trying connect non-existent shard''], None)
           | Some shard \<Rightarrow>
               (Completed, s\<lparr>shards := Map_set (shards s) shardId (shard\<lparr>presence := pres\<rparr>)\<rparr>,
                [ShardConnect shardId], Some Await_last))
      | BOT_READY \<Rightarrow> (Completed, s, when_events s (RunEvent ''BOT_READY''), Some Await_last)
      | EXECUTE_EVAL func nonce \<Rightarrow>
          (let (r, s1) = eval_func x func s;
               result = (case r of Inl e \<Rightarrow> e | Inr v \<Rightarrow> v)
           in (Completed, s1, [], Some (Await_eval result nonce)))
      | CACHE_RESULT nonce result \<Rightarrow>
          (case handleManagerMessages x data s of (r, s', out) \<Rightarrow> (r, s', out, None))
      | SPAWN_SHARDS info compress \<Rightarrow>
          (case handleManagerMessages x data s of (r, s', out) \<Rightarrow> (r, s', out, None))
      | SHARD_INFO shardId nonce \<Rightarrow>
          (case handleManagerMessages x data s of (r, s', out) \<Rightarrow> (r, s', out, None))
      | WORKER_INFO nonce \<Rightarrow>
          (case handleManagerMessages x data s of (r, s', out) \<Rightarrow> (r, s', out, None))
      | API_RESPONSE nonce err response \<Rightarrow>
          (case handleManagerMessages x data s of (r, s', out) \<Rightarrow> (r, s', out, None))
      | EVAL_RESPONSE nonce response \<Rightarrow>
          (case handleManagerMessages x data s of (r, s', out) \<Rightarrow> (r, s', out, None)))"

text \<open>
  An event starts its handler. A packet enters through the closure of its shard, whose first
  statement awaits the configured hook.
\<close>

fun start :: "ext \<Rightarrow> event \<Rightarrow> WorkerClient \<Rightarrow> outcome \<times> WorkerClient \<times> effect list \<times> cont option" where
  "start x (Packet pk shardId) s =
     (Completed, s, (if opt_handlePayload s then [HandlePayloadHook shardId] else []),
      Some (Await_payload_hook pk shardId))"
| "start x (Instruction data) s = handleManagerMessages_begin x data s"
| "start x (TimerFires t) s = (case timeout_callback t s of (s', out) \<Rightarrow> (Completed, s', out, None))"
| "start x (ShardLifecycle i opn lat res sess) s =
     (Completed, shard_lifecycle i opn lat res sess s, [], None)"

text \<open>
  The runtime's moves: an event arrives and its handler starts, or the \<open>i\<close>-th suspended
  handler is resumed. The worker together with its suspended handlers is the state.
\<close>

datatype action = Arrive event | Resume nat

fun act ::
  "ext \<Rightarrow> action \<Rightarrow> WorkerClient \<times> cont list \<Rightarrow> outcome \<times> (WorkerClient \<times> cont list) \<times> effect list" where
  "act x (Arrive e) (s, pool) =
     (case start x e s of
        (r, s', out, k) \<Rightarrow> (r, (s', pool @ (case k of None \<Rightarrow> [] | Some c \<Rightarrow> [c])), out))"
| "act x (Resume i) (s, pool) =
     (if i < length pool then
        (case resume x (pool ! i) s of
           (s', out, k) \<Rightarrow>
             (Completed,
              (s', (case k of None \<Rightarrow> take i pool @ drop (Suc i) pool | Some c \<Rightarrow> pool[i := c])),
              out))
      else (Completed, (s, pool), []))"

text \<open>A schedule, move by move; an exception that leaves a handler ends the run.\<close>

fun run ::
  "ext \<Rightarrow> action list \<Rightarrow> WorkerClient \<times> cont list \<Rightarrow> outcome \<times> (WorkerClient \<times> cont list) \<times> effect list" where
  "run x [] w = (Completed, w, [])"
| "run x (a # as) w =
     (case act x a w of
        (Threw err, w1, out1) \<Rightarrow> (Threw err, w1, out1)
      | (Completed, w1, out1) \<Rightarrow>
          (case run x as w1 of (r, w2, out2) \<Rightarrow> (r, w2, out1 @ out2)))"

text \<open>
  The schedule in which every handler gets the time to finish before the next event
  arrives: no handler stands at more than five awaits in a row.
\<close>

definition serial :: "event list \<Rightarrow> action list" where
  "serial evs = concat (map (\<lambda>e. [Arrive e, Resume 0, Resume 0, Resume 0, Resume 0, Resume 0]) evs)"

text \<open>A handler resumed again and again, at most \<open>n\<close> times, with nothing in between.\<close>

fun drain :: "ext \<Rightarrow> nat \<Rightarrow> WorkerClient \<times> effect list \<times> cont option \<Rightarrow> WorkerClient \<times> effect list" where
  "drain x n (s, out, None) = (s, out)"
| "drain x 0 (s, out, Some k) = (s, out)"
| "drain x (Suc n) (s, out, Some k) =
     (case resume x k s of (s', out', k') \<Rightarrow> drain x n (s', out @ out', k'))"

section \<open>A concrete worker\<close>

text \<open>
  The state the constructor leaves, for a given \<^verbatim>\<open>workerData\<close> and no options: the
  field initialisers of the class (\<^verbatim>\<open>__handleGuilds = new Set()\<close>, empty \<^verbatim>\<open>promises\<close> and
  \<^verbatim>\<open>shards\<close>, an event handler), no debugger and no worker adapter yet.
\<close>

definition new_WorkerClient :: "WorkerData \<Rightarrow> WorkerClient" where
  "new_WorkerClient wd =
     \<lparr>handleGuilds = Some {}, promises = Map.empty, shards = [], workerData = wd,
      events = True, debugger = False, botId = [], applicationId = [], me = None,
      opt_handlePayload = False, opt_sendPayloadToParent = False,
      opt_gateway_properties = JUndefined, adapter_promises = None,
      rest_workerPromises = None, timers = Map.empty, next_handle = 0, randomUUID = []\<rparr>"

text \<open>An instance of the collaborators, for evaluating the model on concrete inputs.\<close>

definition demo_ext :: ext where
  "demo_ext =
     \<lparr>Guilds = 1,
      new_Shard = (\<lambda>i opts. \<lparr>shard_id = i, isOpen = False, shard_latency = PosInf,
                             resumable = False, session_id = None, presence = JUndefined\<rparr>),
      memberUpdate_check = (\<lambda>d. True),
      presenceUpdate_check = (\<lambda>d. True),
      eval_func = (\<lambda>f s. (if f = ''throw'' then Inl (JError ''boom'') else Inr (JString f), s))\<rparr>"

definition demo_data :: "int \<Rightarrow> WorkerData" where
  "demo_data i =
     \<lparr>wd_debug = False, wd_intents = i, wd_shards = [0, 1], wd_token = ''token'', wd_workerId = 3\<rparr>"

definition demo_shard :: "int \<Rightarrow> string option \<Rightarrow> Shard" where
  "demo_shard i sess =
     \<lparr>shard_id = i, isOpen = (sess \<noteq> None), shard_latency = Fin 40,
      resumable = False, session_id = sess, presence = JUndefined\<rparr>"

text \<open>A session start listing the given guilds.\<close>

definition demo_ready :: "string list \<Rightarrow> ReadyData" where
  "demo_ready gs = \<lparr>guilds = gs, user_id = ''u1'', application_id = ''a1'', username = ''bot''\<rparr>"

text \<open>A worker with two shards, of which only shard 0 has a session.\<close>

definition demo_two_shards :: "int \<Rightarrow> WorkerClient" where
  "demo_two_shards i =
     (new_WorkerClient (demo_data i))\<lparr>shards := [(0, demo_shard 0 (Some ''s0'')), (1, demo_shard 1 None)]\<rparr>"

text \<open>That worker after a session start on shard 0 listing the guilds A and B.\<close>

definition demo_settling :: WorkerClient where
  "demo_settling =
     (demo_two_shards 1)\<lparr>handleGuilds := Some {''A'', ''B''}, botId := ''u1'', applicationId := ''a1'',
         me := Some (''u1'', ''a1'')\<rparr>"

text \<open>A worker whose only shard has a session.\<close>

definition demo_one_shard :: WorkerClient where
  "demo_one_shard = (new_WorkerClient (demo_data 1))\<lparr>shards := [(0, demo_shard 0 (Some ''s0''))]\<rparr>"

text \<open>
  A session start on shard 0 lists guild A and its handler reaches the awaited \<^verbatim>\<open>READY\<close>
  event. Meanwhile the create packet of A arrives and is handled to its end. Then the first
  handler is resumed to its end.
\<close>

definition demo_race :: "action list" where
  "demo_race =
     [Arrive (Packet (READY (demo_ready [''A''])) 0), Resume 0,
      Arrive (Packet (GUILD_CREATE ''A'') 0), Resume 1, Resume 1, Resume 1,
      Resume 0, Resume 0, Resume 0, Resume 0]"

text \<open>
  A fresh worker is told to spawn its shards, shard 0 connects, and its session start lists
  the single guild A.
\<close>

definition demo_startup :: "event list" where
  "demo_startup =
     [Instruction (SPAWN_SHARDS JUndefined False), ShardLifecycle 0 True (Fin 40) False (Some ''s0''),
      Packet (READY (demo_ready [''A''])) 0]"

section \<open>Observations on effect lists\<close>

fun is_eval_response :: "effect \<Rightarrow> bool" where
  "is_eval_response (PostMessage (W_EVAL_RESPONSE r w n)) = True"
| "is_eval_response e = False"

text \<open>The readiness announcement: the message to the manager and the local event.\<close>

fun posts_ready :: "effect \<Rightarrow> bool" where
  "posts_ready (PostMessage (W_WORKER_READY w)) = True"
| "posts_ready e = False"

fun emits_ready :: "effect \<Rightarrow> bool" where
  "emits_ready (RunEvent n) = (n = ''WORKER_READY'')"
| "emits_ready e = False"

definition announces :: "effect list \<Rightarrow> bool" where
  "announces out = list_ex (\<lambda>e. posts_ready e \<or> emits_ready e) out"

section \<open>The shard registry\<close>

lemma Map_get_set: "Map_get (Map_set m k v) k' = (if k' = k then Some v else Map_get m k')"
  by (induction m) auto

lemma Map_set_keys: "map fst (Map_set m k v) = (if Map_get m k = None then map fst m @ [k] else map fst m)"
  by (induction m) (auto split: if_splits)

lemma Map_get_None_iff: "Map_get m k = None \<longleftrightarrow> k \<notin> fst ` set m"
  by (induction m) (auto split: if_splits)

lemma ensure_shard_get:
  "Map_get (shards (ensure_shard x info compress i s)) k =
     (case Map_get (shards s) k of
        Some sh \<Rightarrow> Some sh
      | None \<Rightarrow> if k = i then Some (new_Shard x k (spawn_options info compress s)) else None)"
  by (auto simp: ensure_shard_def Map_get_set split: option.splits)

lemma ensure_shard_frame:
  "workerData (ensure_shard x info compress i s) = workerData s"
  "spawn_options info' compress' (ensure_shard x info compress i s) = spawn_options info' compress' s"
  by (auto simp: ensure_shard_def spawn_options_def split: option.splits)

lemma ensure_shard_distinct:
  "distinct (map fst (shards s)) \<Longrightarrow> distinct (map fst (shards (ensure_shard x info compress i s)))"
  by (auto simp: ensure_shard_def Map_set_keys Map_get_None_iff split: option.splits)

lemma ensure_shard_noop:
  "Map_get (shards s) i \<noteq> None \<Longrightarrow> ensure_shard x info compress i s = s"
  by (auto simp: ensure_shard_def)

lemma spawn_shards_Cons:
  "fst (spawn_shards x info compress (i # ids) s) =
     fst (spawn_shards x info compress ids (ensure_shard x info compress i s))"
  "snd (spawn_shards x info compress (i # ids) s) =
     PostMessage (W_CONNECT_QUEUE i (wd_workerId (workerData s)))
       # snd (spawn_shards x info compress ids (ensure_shard x info compress i s))"
  by (simp_all add: Let_def case_prod_beta ensure_shard_frame)

lemma spawn_shards_out:
  "snd (spawn_shards x info compress ids s) =
     map (\<lambda>i. PostMessage (W_CONNECT_QUEUE i (wd_workerId (workerData s)))) ids"
proof (induction ids arbitrary: s)
  case Nil
  show ?case by simp
next
  case (Cons i ids)
  show ?case unfolding spawn_shards_Cons Cons.IH by (simp add: ensure_shard_frame)
qed

lemma spawn_shards_get:
  "Map_get (shards (fst (spawn_shards x info compress ids s))) k =
     (case Map_get (shards s) k of
        Some sh \<Rightarrow> Some sh
      | None \<Rightarrow> if k \<in> set ids then Some (new_Shard x k (spawn_options info compress s)) else None)"
proof (induction ids arbitrary: s)
  case Nil
  show ?case by (simp split: option.splits)
next
  case (Cons i ids)
  show ?case unfolding spawn_shards_Cons Cons.IH
    by (simp add: ensure_shard_get ensure_shard_frame split: option.splits)
qed

lemma spawn_shards_distinct:
  "distinct (map fst (shards s)) \<Longrightarrow>
   distinct (map fst (shards (fst (spawn_shards x info compress ids s))))"
proof (induction ids arbitrary: s)
  case Nil
  then show ?case by simp
next
  case (Cons i ids)
  show ?case unfolding spawn_shards_Cons
    by (rule Cons.IH) (rule ensure_shard_distinct [OF Cons.prems])
qed

lemma spawn_shards_noop:
  "\<forall>i \<in> set ids. Map_get (shards s) i \<noteq> None \<Longrightarrow> fst (spawn_shards x info compress ids s) = s"
proof (induction ids arbitrary: s)
  case Nil
  show ?case by simp
next
  case (Cons i ids)
  then show ?case unfolding spawn_shards_Cons by (simp add: ensure_shard_noop)
qed

lemma spawn_shards_workerData:
  "workerData (fst (spawn_shards x info compress ids s)) = workerData s"
proof (induction ids arbitrary: s)
  case Nil
  show ?case by simp
next
  case (Cons i ids)
  show ?case unfolding spawn_shards_Cons Cons.IH by (simp add: ensure_shard_frame)
qed

lemma handle_spawn:
  "handleManagerMessages x (SPAWN_SHARDS info compress) s =
     (Completed, fst (spawn_shards x info compress (wd_shards (workerData s)) s),
      map (\<lambda>i. PostMessage (W_CONNECT_QUEUE i (wd_workerId (workerData s)))) (wd_shards (workerData s)))"
  by (simp add: handleManagerMessages_def split_def prod_eq_iff spawn_shards_out)

text \<open>
  Claim C9. A spawn-shards instruction creates a Shard only for the assigned ids that the
  registry does not hold yet: afterwards every id already present maps to the Shard it had,
  every other assigned id maps to a new Shard, and no other id is added; keys stay distinct,
  so an id has at most one Shard. It posts one connect-queue request per assigned id, in
  order. A second spawn-shards instruction, whatever it carries, leaves the client as the
  first one left it and posts the same requests again.
\<close>

theorem spawn_shards_idempotent:
  fixes s x info compress info' compress'
  defines "s1 \<equiv> fst (snd (handleManagerMessages x (SPAWN_SHARDS info compress) s))"
  defines "queue \<equiv> map (\<lambda>i. PostMessage (W_CONNECT_QUEUE i (wd_workerId (workerData s)))) (wd_shards (workerData s))"
  shows "handleManagerMessages x (SPAWN_SHARDS info compress) s = (Completed, s1, queue)
       \<and> (\<forall>k. Map_get (shards s1) k =
               (case Map_get (shards s) k of
                  Some sh \<Rightarrow> Some sh
                | None \<Rightarrow> if k \<in> set (wd_shards (workerData s))
                          then Some (new_Shard x k (spawn_options info compress s)) else None))
       \<and> (distinct (map fst (shards s)) \<longrightarrow> distinct (map fst (shards s1)))
       \<and> handleManagerMessages x (SPAWN_SHARDS info' compress') s1 = (Completed, s1, queue)"
proof -
  have s1: "s1 = fst (spawn_shards x info compress (wd_shards (workerData s)) s)"
    by (simp add: s1_def handle_spawn)
  have wd: "workerData s1 = workerData s"
    by (simp add: s1 spawn_shards_workerData)
  have present: "\<forall>i \<in> set (wd_shards (workerData s)). Map_get (shards s1) i \<noteq> None"
    by (simp add: s1 spawn_shards_get split: option.splits)
  have "handleManagerMessages x (SPAWN_SHARDS info compress) s = (Completed, s1, queue)"
    by (simp add: handle_spawn s1 queue_def)
  moreover have "\<forall>k. Map_get (shards s1) k =
               (case Map_get (shards s) k of
                  Some sh \<Rightarrow> Some sh
                | None \<Rightarrow> if k \<in> set (wd_shards (workerData s))
                          then Some (new_Shard x k (spawn_options info compress s)) else None)"
    by (simp add: s1 spawn_shards_get)
  moreover have "distinct (map fst (shards s)) \<longrightarrow> distinct (map fst (shards s1))"
    by (simp add: s1 spawn_shards_distinct)
  moreover have "handleManagerMessages x (SPAWN_SHARDS info' compress') s1 = (Completed, s1, queue)"
    using present by (simp add: handle_spawn wd queue_def spawn_shards_noop)
  ultimately show ?thesis by blast
qed

theorem spawn_shards_idempotent_witness:
  "distinct (map fst (shards (new_WorkerClient (demo_data 1))))
   \<and> map fst (shards (fst (snd (handleManagerMessages demo_ext (SPAWN_SHARDS JUndefined False)
         (new_WorkerClient (demo_data 1)))))) = [0, 1]
   \<and> snd (snd (handleManagerMessages demo_ext (SPAWN_SHARDS JUndefined True)
         (fst (snd (handleManagerMessages demo_ext (SPAWN_SHARDS JUndefined False)
            (new_WorkerClient (demo_data 1))))))) =
       [PostMessage (W_CONNECT_QUEUE 0 3), PostMessage (W_CONNECT_QUEUE 1 3)]"
  using spawn_shards_idempotent [of demo_ext JUndefined False "new_WorkerClient (demo_data 1)" JUndefined True]
  by (simp add: handle_spawn new_WorkerClient_def demo_data_def ensure_shard_def Let_def)

section \<open>Instructions that name a shard\<close>

text \<open>
  Claim C6. A send-payload, allow-connect or shard-info instruction whose shard id is not in
  the registry logs one fatal message and nothing else: no message is posted, the handler
  returns normally without reaching an await, the whole client (registry, pending calls,
  readiness set) and the suspended handlers are unchanged, and the run goes on with whatever
  follows.
\<close>

theorem unknown_shard_instruction_dropped:
  assumes "Map_get (shards s) shardId = None"
      and "data = SEND_PAYLOAD shardId nonce payload \<or> data = ALLOW_CONNECT shardId pres
           \<or> data = SHARD_INFO shardId nonce"
  shows "\<exists>msg. handleManagerMessages x data s = (Completed, s, [LoggerFatal msg])
           \<and> start x (Instruction data) s = (Completed, s, [LoggerFatal msg], None)
           \<and> run x (Arrive (Instruction data) # rest) (s, pool) =
               (case run x rest (s, pool) of (r, w2, out2) \<Rightarrow> (r, w2, LoggerFatal msg # out2))"
  using assms
  by (auto simp: handleManagerMessages_def handleManagerMessages_begin_def split: prod.splits)

theorem unknown_shard_instruction_dropped_witness:
  "Map_get (shards (new_WorkerClient (demo_data 1))) 7 = None
   \<and> run demo_ext [Arrive (Instruction (ALLOW_CONNECT 7 JUndefined)), Arrive (Instruction (WORKER_INFO ''n1''))]
        (new_WorkerClient (demo_data 1), []) =
      (Completed, (new_WorkerClient (demo_data 1), []),
       [LoggerFatal ''Worker trying connect non-existent shard'', PostMessage (W_WORKER_INFO [] 3 ''n1'')])"
  using unknown_shard_instruction_dropped [of "new_WorkerClient (demo_data 1)" 7
      "ALLOW_CONNECT 7 JUndefined" "''''" JUndefined JUndefined demo_ext
      "[Arrive (Instruction (WORKER_INFO ''n1''))]" "[]"]
  by (simp add: new_WorkerClient_def demo_data_def handleManagerMessages_def
        handleManagerMessages_begin_def Map_values_def)

text \<open>
  Claim C7. An execute-eval instruction always ends normally with exactly one posted
  message, the eval response carrying the instruction's nonce; its response is the value the
  callable returned or, when the callable threw, the error that was caught.
\<close>

theorem execute_eval_always_responds:
  "(\<exists>s' response.
      handleManagerMessages x (EXECUTE_EVAL func nonce) s =
        (Completed, s', [PostMessage (W_EVAL_RESPONSE response (wd_workerId (workerData s')) nonce)])
      \<and> (\<forall>e. fst (eval_func x func s) = Inl e \<longrightarrow> response = e)
      \<and> (\<forall>v. fst (eval_func x func s) = Inr v \<longrightarrow> response = v)
      \<and> s' = snd (eval_func x func s))
   \<and> length (filter is_eval_response (snd (snd (handleManagerMessages x (EXECUTE_EVAL func nonce) s)))) = 1"
  by (auto simp: handleManagerMessages_def split: prod.splits sum.splits)

theorem execute_eval_always_responds_witness:
  "handleManagerMessages demo_ext (EXECUTE_EVAL ''throw'' ''n7'') (new_WorkerClient (demo_data 1)) =
     (Completed, new_WorkerClient (demo_data 1), [PostMessage (W_EVAL_RESPONSE (JError ''boom'') 3 ''n7'')])"
  using execute_eval_always_responds [of demo_ext "''throw''" "''n7''" "new_WorkerClient (demo_data 1)"]
  by (simp add: demo_ext_def new_WorkerClient_def demo_data_def)

text \<open>
  Claim C8. The reply to a shard-info query for a registered shard carries the query's nonce
  and the shard's \<^verbatim>\<open>isOpen\<close>, \<^verbatim>\<open>id\<close>, \<^verbatim>\<open>latency\<close> and \<^verbatim>\<open>resumable\<close> as they are when the
  reply is built; the reply to a worker-info query carries the nonce and, for each shard of
  the registry in its order, those same four values.
\<close>

theorem shard_info_matches_shard:
  "(\<forall>shard. Map_get (shards s) shardId = Some shard \<longrightarrow>
      (\<exists>info. handleManagerMessages x (SHARD_INFO shardId nonce) s =
                 (Completed, s, [PostMessage (W_SHARD_INFO info nonce (workerId s))])
         \<and> open_info info = isOpen shard \<and> shardId_info info = shard_id shard
         \<and> latency_info info = shard_latency shard \<and> resumable_info info = resumable shard))
   \<and> (\<exists>infos. handleManagerMessages x (WORKER_INFO nonce) s =
                 (Completed, s, [PostMessage (W_WORKER_INFO infos (workerId s) nonce)])
         \<and> length infos = length (shards s)
         \<and> (\<forall>i < length (shards s).
               open_info (infos ! i) = isOpen (snd (shards s ! i))
             \<and> shardId_info (infos ! i) = shard_id (snd (shards s ! i))
             \<and> latency_info (infos ! i) = shard_latency (snd (shards s ! i))
             \<and> resumable_info (infos ! i) = resumable (snd (shards s ! i))))"
  by (auto simp: handleManagerMessages_def generateShardInfo_def Map_values_def workerId_def)

theorem shard_info_matches_shard_witness:
  "handleManagerMessages demo_ext (SHARD_INFO 1 ''q'')
     ((new_WorkerClient (demo_data 1))\<lparr>shards := [(0, demo_shard 0 None), (1, demo_shard 1 (Some ''abc''))]\<rparr>) =
   (Completed,
    (new_WorkerClient (demo_data 1))\<lparr>shards := [(0, demo_shard 0 None), (1, demo_shard 1 (Some ''abc''))]\<rparr>,
    [PostMessage (W_SHARD_INFO \<lparr>open_info = True, shardId_info = 1, latency_info = Fin 40, resumable_info = False\<rparr> ''q'' 3)])"
  using shard_info_matches_shard [of
      "(new_WorkerClient (demo_data 1))\<lparr>shards := [(0, demo_shard 0 None), (1, demo_shard 1 (Some ''abc''))]\<rparr>"
      1 demo_ext "''q''"]
  by (simp add: new_WorkerClient_def demo_data_def demo_shard_def workerId_def
        handleManagerMessages_def generateShardInfo_def)

section \<open>The pending-call table\<close>

lemma generateNonce_fresh:
  "generateNonce large pm us = Some (n, rest) \<Longrightarrow> pm n = None"
  by (induction us) (auto simp: Let_def split: if_splits)

lemma generateNonce_returns:
  "\<exists>u \<in> set us. pm (nonce_of large u) = None \<Longrightarrow> generateNonce large pm us \<noteq> None"
  by (induction us) (auto simp: Let_def)

text \<open>
  Claim C5. Nonce generation never returns a key of the promises map: a token that is
  already a key is skipped and generation goes on with the next random token, a token that
  is not a key is returned, and generation returns as soon as the random source yields one
  token that is not a key.
\<close>

theorem generateNonce_never_live:
  "(\<forall>n rest. generateNonce large pm us = Some (n, rest) \<longrightarrow> pm n = None)
   \<and> (pm (nonce_of large u) \<noteq> None \<longrightarrow> generateNonce large pm (u # us) = generateNonce large pm us)
   \<and> (pm (nonce_of large u) = None \<longrightarrow> generateNonce large pm (u # us) = Some (nonce_of large u, us))
   \<and> ((\<exists>u \<in> set us. pm (nonce_of large u) = None) \<longrightarrow> generateNonce large pm us \<noteq> None)"
  using generateNonce_fresh [of large pm us] generateNonce_returns [of us pm large]
  by (auto simp: Let_def)

theorem generateNonce_never_live_witness:
  "generateNonce None [''aa-1'' \<mapsto> \<lparr>resolve = 0, timeout = 1\<rparr>] [''aa-1'', ''bb-2''] = Some (''bb-2'', [])
   \<and> generateNonce (Some False) [''aa'' \<mapsto> \<lparr>resolve = 0, timeout = 1\<rparr>] [''aa-1'', ''bb-2''] = Some (''bb'', [])"
  using generateNonce_never_live [of None "[''aa-1'' \<mapsto> \<lparr>resolve = 0, timeout = 1\<rparr>]" "[''bb-2'']" "''aa-1''"]
    generateNonce_never_live [of "Some False" "[''aa'' \<mapsto> \<lparr>resolve = 0, timeout = 1\<rparr>]" "[''bb-2'']" "''aa-1''"]
  by (simp add: nonce_of_def)

text \<open>
  Claim C4. A pending call is stored with a timer of 60000 milliseconds. In any later state
  in which the entry and its timer are still as they were stored (no response has taken
  them), the timer's callback removes the entry and rejects the caller's promise with an
  error carrying the caller's message, \<^verbatim>\<open>Timeout\<close> when none was given; an eval response
  for that nonce afterwards changes nothing and has no effect.
\<close>

theorem pending_call_timeout:
  assumes "generateSendPromise nonce message s = (p, s1)"
  defines "msg \<equiv> (case message of None \<Rightarrow> ''Timeout'' | Some m \<Rightarrow> m)"
  shows "\<exists>t. promises s1 nonce = Some \<lparr>resolve = p, timeout = t\<rparr>
           \<and> timers s1 t = Some \<lparr>delay_ms = 60000, cb_nonce = nonce, cb_message = msg, cb_reject = p\<rparr>
           \<and> (\<forall>s2. promises s2 nonce = promises s1 nonce \<and> timers s2 t = timers s1 t \<longrightarrow>
                 (\<exists>s3. timeout_callback t s2 = (s3, [PromiseReject p (JError msg)])
                    \<and> promises s3 nonce = None \<and> timers s3 t = None
                    \<and> (\<forall>x response. handleManagerMessages x (EVAL_RESPONSE nonce response) s3
                           = (Completed, s3, []))))"
  using assms
  by (auto simp: generateSendPromise_def Let_def timeout_callback_def handleManagerMessages_def)

theorem pending_call_timeout_witness:
  "(case generateSendPromise ''n1'' None (new_WorkerClient (demo_data 1)) of (p, s1) \<Rightarrow>
      (case timeout_callback 1 s1 of (s3, out) \<Rightarrow>
         out = [PromiseReject 0 (JError ''Timeout'')] \<and> promises s3 ''n1'' = None
         \<and> handleManagerMessages demo_ext (EVAL_RESPONSE ''n1'' JUndefined) s3 = (Completed, s3, [])))"
  using pending_call_timeout [of "''n1''" None "new_WorkerClient (demo_data 1)" 0
      "snd (generateSendPromise ''n1'' None (new_WorkerClient (demo_data 1)))"]
  by (simp add: generateSendPromise_def new_WorkerClient_def timeout_callback_def handleManagerMessages_def)

section \<open>Readiness\<close>

lemma foldl_insert: "foldl (\<lambda>acc g. insert g acc) A gs = A \<union> set gs"
  by (induction gs arbitrary: A) auto

lemma announces_simps:
  "announces [] = False"
  "announces (e # out) = (posts_ready e \<or> emits_ready e \<or> announces out)"
  "announces (out1 @ out2) = (announces out1 \<or> announces out2)"
  by (auto simp: announces_def)

lemma when_events_quiet:
  "\<not> emits_ready e \<Longrightarrow> \<not> posts_ready e \<Longrightarrow> \<not> announces (when_events s e)"
  by (simp add: when_events_def announces_simps)

lemma announce_ready_count:
  "length (filter posts_ready (announce_ready s)) = 1"
  "length (filter emits_ready (announce_ready s)) \<le> 1"
  "announces (announce_ready s)"
  by (simp_all add: announce_ready_def when_events_def announces_simps)

lemma onGuild_None:
  "handleGuilds s = None \<Longrightarrow> onGuild pk g shardId s = (s, when_events s (ExecuteEvent (packet_t pk) shardId))"
  by (simp add: onGuild_def)

lemma onGuild_Some:
  "handleGuilds s = Some G \<Longrightarrow>
   onGuild pk g shardId s =
     (if g \<notin> G then (s, when_events s (ExecuteEvent (packet_t pk) shardId))
      else if G \<noteq> {g} then (s\<lparr>handleGuilds := Some (G - {g})\<rparr>, [CacheOnPacket pk])
      else if every_session_id s then (s\<lparr>handleGuilds := None\<rparr>, CacheOnPacket pk # announce_ready s)
      else (s\<lparr>handleGuilds := None\<rparr>, [CacheOnPacket pk]))"
  by (auto simp: onGuild_def Let_def)

lemma onReady_eq:
  "onReady x d shardId s =
     (let G = (case handleGuilds s of None \<Rightarrow> {} | Some G \<Rightarrow> G) \<union> set (guilds d);
          s1 = s\<lparr>handleGuilds := Some G, botId := user_id d, applicationId := application_id d,
                 me := Some (user_id d, application_id d)\<rparr>;
          pre = when_events s (ExecuteEvent ''READY'' shardId)
                @ (if every_session_id s
                   then PostMessage (W_WORKER_SHARDS_CONNECTED (workerId s))
                        # when_events s (RunEvent ''WORKER_SHARDS_CONNECTED'')
                   else []);
          dbg = (if debugger s then [DebuggerDebug shardId] else [])
      in if G \<noteq> {} \<and> intents_Guilds x s then (s1, pre @ dbg)
         else (s1\<lparr>handleGuilds := None\<rparr>,
               pre @ (if every_session_id s then announce_ready s else []) @ dbg))"
  by (simp add: onReady_def Let_def foldl_insert every_session_id_def intents_Guilds_def
      when_events_def workerId_def announce_ready_def)

lemma raw_quiet: "\<not> announces (when_events s (RunEvent ''RAW'') @ [CollectorsRun ''RAW''])"
  by (simp add: announces_simps when_events_def)

lemma onPacket_guild:
  "pk = GUILD_CREATE g \<or> pk = GUILD_DELETE g \<Longrightarrow>
   onPacket x pk shardId s =
     (fst (onGuild pk g shardId s),
      (when_events s (RunEvent ''RAW'') @ [CollectorsRun ''RAW'']) @ snd (onGuild pk g shardId s))"
  by (auto simp: onPacket_def Let_def split_def)

lemma onPacket_other:
  assumes "\<forall>g. pk \<noteq> GUILD_CREATE g \<and> pk \<noteq> GUILD_DELETE g" "\<forall>d. pk \<noteq> READY d"
  shows "fst (onPacket x pk shardId s) = s \<and> \<not> announces (snd (onPacket x pk shardId s))"
  using assms
  by (cases pk) (auto simp: onPacket_def Let_def announces_simps when_events_def)

lemma onGuild_step:
  "(handleGuilds (fst (onGuild pk g shardId s)) = handleGuilds s \<and> (\<forall>G. handleGuilds s = Some G \<longrightarrow> g \<notin> G)
      \<and> \<not> announces (snd (onGuild pk g shardId s)))
   \<or> (\<exists>G. handleGuilds s = Some G \<and> g \<in> G \<and> G \<noteq> {g}
         \<and> handleGuilds (fst (onGuild pk g shardId s)) = Some (G - {g})
         \<and> \<not> announces (snd (onGuild pk g shardId s)))
   \<or> (handleGuilds s = Some {g} \<and> handleGuilds (fst (onGuild pk g shardId s)) = None
         \<and> (announces (snd (onGuild pk g shardId s)) \<longleftrightarrow> every_session_id s)
         \<and> length (filter posts_ready (snd (onGuild pk g shardId s))) \<le> 1
         \<and> length (filter emits_ready (snd (onGuild pk g shardId s))) \<le> 1)"
proof (cases "handleGuilds s")
  case None
  then show ?thesis by (simp add: onGuild_None when_events_quiet)
next
  case (Some G)
  then show ?thesis using announce_ready_count [of s]
    by (auto simp: onGuild_Some when_events_quiet announces_simps)
qed

section \<open>Handlers that are not interrupted\<close>

text \<open>
  A handler that is resumed at once at each of its awaits does what \<^verbatim>\<open>handlePayload\<close> and
  \<^verbatim>\<open>handleManagerMessages\<close> do when taken as a whole.
\<close>

lemma uninterrupted_packet:
  "drain x 5 (snd (start x (Packet pk shardId) s)) = handlePayload x shardId pk s"
proof (cases pk)
  case (READY d)
  then show ?thesis
    by (simp add: eval_nat_numeral handlePayload_def onPacket_def onReady_eq onPacket_begin_def
        ready_test_def ready_end_def foldl_insert Let_def split_def announce_ready_def when_events_def
        every_session_id_def intents_Guilds_def workerId_def)
next
  case (GUILD_CREATE g)
  then show ?thesis
    by (cases "handleGuilds s")
      (simp_all add: eval_nat_numeral handlePayload_def onPacket_def onGuild_def onPacket_begin_def
        Let_def split_def announce_ready_def when_events_def workerId_def)
next
  case (GUILD_DELETE g)
  then show ?thesis
    by (cases "handleGuilds s")
      (simp_all add: eval_nat_numeral handlePayload_def onPacket_def onGuild_def onPacket_begin_def
        Let_def split_def announce_ready_def when_events_def workerId_def)
qed (simp_all add: eval_nat_numeral handlePayload_def onPacket_def onPacket_begin_def
        Let_def split_def when_events_def)

lemma uninterrupted_instruction:
  "(case handleManagerMessages_begin x data s of (r, s1, out1, k) \<Rightarrow> (r, drain x 5 (s1, out1, k)))
     = handleManagerMessages x data s"
  by (cases data)
    (auto simp: eval_nat_numeral handleManagerMessages_begin_def handleManagerMessages_def
      split_def workerId_def Let_def split: option.splits)

lemma uninterrupted:
  "(case start x e s of (r, s1, out1, k) \<Rightarrow> (r, drain x 5 (s1, out1, k))) = step x e s"
proof (cases e)
  case (Packet pk shardId)
  then show ?thesis using uninterrupted_packet [of x pk shardId s]
    by (simp add: split_def)
next
  case (Instruction data)
  then show ?thesis using uninterrupted_instruction [of x data s] by simp
qed (simp_all add: split_def)

lemmas seg_defs = handlePayload_def onPacket_def onPacket_begin_def ready_test_def ready_end_def
  Let_def split_def announce_ready_def when_events_def workerId_def

lemma serial_packet:
  "run x [Arrive (Packet pk shardId), Resume 0, Resume 0, Resume 0, Resume 0, Resume 0] (s, []) =
     (Completed, (fst (handlePayload x shardId pk s), []), snd (handlePayload x shardId pk s))"
proof (cases pk)
  case (READY d)
  then show ?thesis
    by (simp add: seg_defs onReady_eq foldl_insert every_session_id_def intents_Guilds_def)
next
  case (GUILD_CREATE g)
  then show ?thesis
    by (cases "handleGuilds s") (simp_all add: seg_defs onGuild_def)
next
  case (GUILD_DELETE g)
  then show ?thesis
    by (cases "handleGuilds s") (simp_all add: seg_defs onGuild_def)
qed (simp_all add: seg_defs)

lemma serial_instruction:
  "run x [Arrive (Instruction data), Resume 0, Resume 0, Resume 0, Resume 0, Resume 0] (s, []) =
     (case handleManagerMessages x data s of (r, s', out) \<Rightarrow> (r, (s', []), out))"
  by (cases data)
    (auto simp: handleManagerMessages_begin_def handleManagerMessages_def
      split_def workerId_def Let_def split: option.splits)

lemma run_append:
  "run x (as @ bs) w =
     (case run x as w of
        (Threw err, w1, out1) \<Rightarrow> (Threw err, w1, out1)
      | (Completed, w1, out1) \<Rightarrow>
          (case run x bs w1 of (r, w2, out2) \<Rightarrow> (r, w2, out1 @ out2)))"
  by (induction as arbitrary: w) (auto split: prod.splits outcome.splits)

text \<open>The serial schedule handles the events one by one, each as a whole.\<close>

lemma serial_step:
  "run x (serial (e # evs)) (s, []) =
     (case step x e s of
        (Threw err, s1, out1) \<Rightarrow> (Threw err, (s1, []), out1)
      | (Completed, s1, out1) \<Rightarrow>
          (case run x (serial evs) (s1, []) of (r, w2, out2) \<Rightarrow> (r, w2, out1 @ out2)))"
proof -
  have one: "run x (serial [e]) (s, []) = (case step x e s of (r, s', out) \<Rightarrow> (r, (s', []), out))"
  proof (cases e)
    case (Packet pk shardId)
    then show ?thesis using serial_packet [of x pk shardId s] by (simp add: serial_def split_def)
  next
    case (Instruction data)
    then show ?thesis using serial_instruction [of x data s] by (simp add: serial_def)
  qed (simp_all add: serial_def split_def)
  have "serial (e # evs) = serial [e] @ serial evs" by (simp add: serial_def)
  then show ?thesis
    by (simp only: run_append one) (auto split: prod.splits outcome.splits)
qed

lemmas demo_defs = demo_ready_def demo_two_shards_def demo_one_shard_def new_WorkerClient_def
  demo_data_def demo_shard_def demo_ext_def

lemmas eval_defs = handlePayload_def onPacket_def onGuild_def onReady_def every_session_id_def
  intents_Guilds_def when_events_def announce_ready_def workerId_def Map_values_def
  shard_lifecycle_def announces_def onPacket_begin_def ready_test_def ready_end_def Let_def

text \<open>
  Claim C1 asks that readiness be announced at most once per settling window. The worker's
  only shard has a session and the intents include the guild bit. A session start lists
  guild A; while its handler waits for the \<^verbatim>\<open>READY\<close> event to be executed, the create
  packet of A is handled: it empties and deletes the set and posts WORKER_READY. The first
  handler then goes on, finds no set, and posts WORKER_READY a second time.
\<close>

theorem readiness_announced_twice:
  "handleGuilds (fst (fst (snd (run demo_ext (take 2 demo_race) (demo_one_shard, []))))) = Some {''A''}
   \<and> every_session_id demo_one_shard
   \<and> filter posts_ready (snd (snd (run demo_ext demo_race (demo_one_shard, [])))) =
       [PostMessage (W_WORKER_READY 3), PostMessage (W_WORKER_READY 3)]
   \<and> filter emits_ready (snd (snd (run demo_ext demo_race (demo_one_shard, [])))) =
       [RunEvent ''WORKER_READY'', RunEvent ''WORKER_READY'']
   \<and> snd (fst (snd (run demo_ext demo_race (demo_one_shard, [])))) = []"
  by (simp add: demo_race_def demo_defs eval_defs)

text \<open>
  Against claim C2 as stated: the readiness set of a fresh worker is present and empty; and
  when the last pending guild arrives while shard 1 has no session yet, the set is deleted
  and nothing is announced.
\<close>

theorem readiness_set_counterexample:
  "handleGuilds (new_WorkerClient (demo_data 1)) = Some {}
   \<and> handleGuilds (fst (fst (snd (run demo_ext (serial demo_startup)
         (new_WorkerClient (demo_data 1), []))))) = Some {''A''}
   \<and> handleGuilds (fst (fst (snd (run demo_ext (serial (demo_startup @ [Packet (GUILD_CREATE ''A'') 0]))
         (new_WorkerClient (demo_data 1), []))))) = None
   \<and> \<not> announces (snd (snd (run demo_ext (serial (demo_startup @ [Packet (GUILD_CREATE ''A'') 0]))
         (new_WorkerClient (demo_data 1), []))))"
  by (simp add: serial_def demo_startup_def handleManagerMessages_begin_def handle_spawn demo_defs
        eval_defs ensure_shard_def)

text \<open>
  Claim C2, as the code has it. After any session-start packet the readiness set, when
  present, is non-empty, and every packet keeps it so (the set that the constructor leaves
  is present and empty). When a create or delete packet removes the last pending id, the set
  is deleted in that same step, and readiness is announced in that step exactly when every
  shard of the registry has a session id. With the set gone, a create or delete packet
  changes nothing and announces nothing.
\<close>

theorem readiness_set_invariant:
  "(\<forall>G. handleGuilds (fst (onPacket x (READY d) shardId s)) = Some G \<longrightarrow> G \<noteq> {})
   \<and> ((\<forall>G. handleGuilds s = Some G \<longrightarrow> G \<noteq> {}) \<longrightarrow>
        (\<forall>G. handleGuilds (fst (onPacket x pk shardId s)) = Some G \<longrightarrow> G \<noteq> {}))
   \<and> (handleGuilds s = Some {g} \<and> (pk = GUILD_CREATE g \<or> pk = GUILD_DELETE g) \<longrightarrow>
        handleGuilds (fst (onPacket x pk shardId s)) = None
        \<and> (announces (snd (onPacket x pk shardId s)) \<longleftrightarrow> every_session_id s))
   \<and> (handleGuilds s = None \<and> (pk = GUILD_CREATE g \<or> pk = GUILD_DELETE g) \<longrightarrow>
        fst (onPacket x pk shardId s) = s \<and> \<not> announces (snd (onPacket x pk shardId s)))"
proof (intro conjI allI impI)
  fix G assume "handleGuilds (fst (onPacket x (READY d) shardId s)) = Some G"
  then show "G \<noteq> {}"
    by (auto simp: onPacket_def onReady_eq Let_def split: if_splits)
next
  fix G assume inv: "\<forall>G. handleGuilds s = Some G \<longrightarrow> G \<noteq> {}"
    and G: "handleGuilds (fst (onPacket x pk shardId s)) = Some G"
  consider g where "pk = GUILD_CREATE g \<or> pk = GUILD_DELETE g" | d where "pk = READY d"
    | "(\<forall>g. pk \<noteq> GUILD_CREATE g \<and> pk \<noteq> GUILD_DELETE g) \<and> (\<forall>d. pk \<noteq> READY d)" by blast
  then show "G \<noteq> {}"
  proof cases
    case 1
    from onGuild_step [of pk g shardId s] G
    have "handleGuilds s = Some G
          \<or> (\<exists>G0. handleGuilds s = Some G0 \<and> g \<in> G0 \<and> G0 \<noteq> {g} \<and> G = G0 - {g})"
      by (auto simp: onPacket_guild [OF 1])
    then show ?thesis using inv by auto
  next
    case 2
    then show ?thesis using G
      by (auto simp: onPacket_def onReady_eq Let_def split: if_splits)
  next
    case 3
    then show ?thesis using onPacket_other [of pk x shardId s] G inv by auto
  qed
next
  assume a: "handleGuilds s = Some {g} \<and> (pk = GUILD_CREATE g \<or> pk = GUILD_DELETE g)"
  then have pk: "pk = GUILD_CREATE g \<or> pk = GUILD_DELETE g" by simp
  show "handleGuilds (fst (onPacket x pk shardId s)) = None"
    using a by (auto simp: onPacket_guild [OF pk] onGuild_Some)
  show "announces (snd (onPacket x pk shardId s)) \<longleftrightarrow> every_session_id s"
    using a announce_ready_count(3) [of s]
    by (auto simp: onPacket_guild [OF pk] onGuild_Some announces_simps raw_quiet when_events_def)
next
  assume a: "handleGuilds s = None \<and> (pk = GUILD_CREATE g \<or> pk = GUILD_DELETE g)"
  then have pk: "pk = GUILD_CREATE g \<or> pk = GUILD_DELETE g" by simp
  show "fst (onPacket x pk shardId s) = s"
    using a by (auto simp: onPacket_guild [OF pk] onGuild_None)
  show "\<not> announces (snd (onPacket x pk shardId s))"
    using a by (auto simp: onPacket_guild [OF pk] onGuild_None announces_simps when_events_def)
qed

theorem readiness_set_invariant_witness:
  "handleGuilds (demo_settling\<lparr>handleGuilds := Some {''B''}\<rparr>) = Some {''B''}
   \<and> handleGuilds (fst (onPacket demo_ext (GUILD_DELETE ''B'') 0 (demo_settling\<lparr>handleGuilds := Some {''B''}\<rparr>))) = None
   \<and> \<not> every_session_id (demo_settling\<lparr>handleGuilds := Some {''B''}\<rparr>)
   \<and> \<not> announces (snd (onPacket demo_ext (GUILD_DELETE ''B'') 0 (demo_settling\<lparr>handleGuilds := Some {''B''}\<rparr>)))"
proof -
  have h: "handleGuilds (demo_settling\<lparr>handleGuilds := Some {''B''}\<rparr>) = Some {''B''}" by simp
  have e: "\<not> every_session_id (demo_settling\<lparr>handleGuilds := Some {''B''}\<rparr>)"
    by (simp add: demo_settling_def demo_defs every_session_id_def Map_values_def)
  show ?thesis
    using readiness_set_invariant [of demo_ext "demo_ready []" 0 "demo_settling\<lparr>handleGuilds := Some {''B''}\<rparr>"
        "GUILD_DELETE ''B''" "''B''"] h e
    by simp
qed




end
